theory Spec2Isabelle
  imports Main "HOL-Library.Word"
begin

section \<open>JavaScript values and errors\<close>

text \<open>
  The transaction object of \<^verbatim>\<open>lib/transaction.js\<close> keeps its nine fields in the array
  \<^verbatim>\<open>this.raw\<close>. The elements are Node Buffers once the constructor has accepted them,
  but the code also stores hex strings and \<^verbatim>\<open>null\<close> on the way, so the model keeps
  JavaScript's dynamic typing: a value is one of the following.
\<close>

type_synonym byte = "8 word"

datatype jsval =
    Undefined
  | Null
  | Boolean bool
  | Number int
  | String string
  | Buffer "byte list"
  | Array "jsval list"

text \<open>
  Every \<^verbatim>\<open>throw\<close> is a value: \<open>InvalidFieldCount\<close> is the string thrown at line 69,
  \<open>AssertionError\<close> a failed \<^verbatim>\<open>assert\<close>, \<open>TypeError\<close> what the runtime raises for a
  method call on a value that does not have the method; the remaining ones are raised by
  the libraries the file requires.
\<close>

datatype error =
    InvalidFieldCount
  | AssertionError
  | TypeError
  | MalformedEncoding
  | InvalidHexString
  | RecoveryFailure

text \<open>JavaScript's truthiness (\<^verbatim>\<open>if (data)\<close>, \<^verbatim>\<open>!data\<close>, \<^verbatim>\<open>a && b\<close>).\<close>

fun truthy :: "jsval \<Rightarrow> bool" where
  "truthy Undefined = False"
| "truthy Null = False"
| "truthy (Boolean b) = b"
| "truthy (Number n) = (n \<noteq> 0)"
| "truthy (String s) = (s \<noteq> [])"
| "truthy (Buffer b) = True"
| "truthy (Array xs) = True"

fun isArray :: "jsval \<Rightarrow> bool" where
  "isArray (Array xs) = True"
| "isArray v = False"

text \<open>Reading \<^verbatim>\<open>xs[i]\<close>: \<^verbatim>\<open>undefined\<close> beyond the end.\<close>

definition nth_js :: "jsval list \<Rightarrow> nat \<Rightarrow> jsval" where
  "nth_js xs i = (if i < length xs then xs ! i else Undefined)"

text \<open>Writing \<^verbatim>\<open>xs[i] = v\<close>: beyond the end the array grows, the gap left undefined.\<close>

definition store :: "jsval list \<Rightarrow> nat \<Rightarrow> jsval \<Rightarrow> jsval list" where
  "store xs i v =
     (if i < length xs then xs[i := v]
      else xs @ replicate (i - length xs) Undefined @ [v])"

text \<open>
  A library function documented to take a Buffer is applied through \<open>asBuffer\<close>: a value
  of another type is outside the library's contract, and the model stops there with
  \<open>TypeError\<close>.
\<close>

fun asBuffer :: "jsval \<Rightarrow> error + byte list" where
  "asBuffer (Buffer b) = Inr b"
| "asBuffer v = Inl TypeError"

text \<open>
  \<^verbatim>\<open>bignum.fromBuffer\<close> and \<^verbatim>\<open>BigInteger.fromBuffer\<close> with their default options: the
  bytes are the digits of an unsigned number in base 256, most significant first. Both
  libraries are arbitrary-precision, hence \<open>int\<close>.
\<close>

definition fromBuffer :: "byte list \<Rightarrow> int" where
  "fromBuffer bs = foldl (\<lambda>acc b. acc * 256 + uint b) 0 bs"

section \<open>The transaction object and what it requires\<close>

record transaction =
  raw :: "jsval list"
  type :: string

text \<open>
  The file requires \<^verbatim>\<open>rlp\<close>, \<^verbatim>\<open>sha3\<close>, \<^verbatim>\<open>ecdsa\<close>, and the repository's own
  \<^verbatim>\<open>utils.js\<close>, \<^verbatim>\<open>fees.js\<close> and \<^verbatim>\<open>ecdsaOps.js\<close>, none of which is among the
  sources. What the transaction code calls of them is a parameter of the model:
  \<^item> \<open>rlp_encode\<close>, \<open>rlp_decode\<close>: \<^verbatim>\<open>rlp.encode\<close>, \<^verbatim>\<open>rlp.decode\<close> (decoding may throw);
  \<^item> \<open>sha3_256\<close>: the digest of \<^verbatim>\<open>new SHA3.SHA3Hash(256)\<close>;
  \<^item> \<open>hex_Buffer\<close>: \<^verbatim>\<open>new Buffer(s, 'hex')\<close>;
  \<^item> \<open>utils_validate\<close>: \<^verbatim>\<open>utils.validate(fields, raw)\<close>, true when it returns, false
    when its assertion fails;
  \<^item> \<open>utils_bufferToInt_other\<close>: \<^verbatim>\<open>utils.bufferToInt\<close> on a value that is not a Buffer;
  \<^item> \<open>utils_intToBuffer\<close>, \<open>utils_pubToAddress\<close>: the helpers of those names;
  \<^item> \<open>fees_getFee\<close>: the fee table behind \<^verbatim>\<open>fees.getFee\<close>;
  \<^item> \<open>ecdsa_recoverPubKey\<close>: \<^verbatim>\<open>ecdsa.recoverPubKey(e, {r, s, v}, v)\<close>, which may throw;
  \<^item> \<open>ecdsaOps_verifySignature\<close>: the method installed as \<^verbatim>\<open>verifySignature\<close>.
\<close>

record env =
  rlp_encode :: "jsval \<Rightarrow> byte list"
  rlp_decode :: "byte list \<Rightarrow> error + jsval"
  sha3_256 :: "byte list \<Rightarrow> byte list"
  hex_Buffer :: "string \<Rightarrow> error + byte list"
  utils_validate :: "string list \<Rightarrow> jsval list \<Rightarrow> bool"
  utils_bufferToInt_other :: "jsval \<Rightarrow> error + int"
  utils_intToBuffer :: "jsval \<Rightarrow> error + byte list"
  utils_pubToAddress :: "jsval \<Rightarrow> error + jsval"
  fees_getFee :: "string \<Rightarrow> int"
  ecdsa_recoverPubKey :: "int \<Rightarrow> int \<Rightarrow> int \<Rightarrow> int \<Rightarrow> error + jsval"
  ecdsaOps_verifySignature :: "transaction \<Rightarrow> bool"

text \<open>
  Modelled from the spec: \<^verbatim>\<open>utils.bufferToInt\<close> (\<^verbatim>\<open>lib/utils.js\<close> is not among the
  sources). The spec reads a field "as integer, not byte length", each numeric slot being
  "its canonical big-endian unsigned-integer byte representation", with the empty string
  and the single zero byte both standing for zero. What the helper does with a value that
  is not a Buffer is left to the environment. The spec gives this reading for the numeric
  slots; for the address slot \<^verbatim>\<open>to\<close>, which the code passes to the same helper at
  lines 75 and 89, the statements below use of it only that a Buffer of one byte or more
  reads as zero exactly when all its bytes are zero, and say nothing of the empty Buffer.
\<close>

definition bufferToInt :: "env \<Rightarrow> jsval \<Rightarrow> error + int" where
  "bufferToInt E v =
     (case v of Buffer b \<Rightarrow> Inr (fromBuffer b) | _ \<Rightarrow> utils_bufferToInt_other E v)"

text \<open>
  Modelled from the spec: \<^verbatim>\<open>utils.zero256\<close> (\<^verbatim>\<open>lib/utils.js\<close> is not among the
  sources); the spec has \<^verbatim>\<open>r\<close> and \<^verbatim>\<open>s\<close> as "fixed-width 256-bit big-endian integers
  (zero-padded)", so the zero of that width is 32 zero bytes.
\<close>

definition zero256 :: "byte list" where
  "zero256 = replicate 32 0"

text \<open>The default values of lines 17 to 27.\<close>

definition default_raw :: "jsval list" where
  "default_raw =
     [Buffer [0], Buffer [0], Buffer [0], Buffer [0], Buffer [0], Buffer [0],
      Buffer [0x1c], Buffer zero256, Buffer zero256]"

definition fields :: "string list" where
  "fields = [''nonce'', ''gasPrice'', ''gasLimit'', ''to'', ''value'', ''data'',
             ''v'', ''r'', ''s'']"

text \<open>
  \<^verbatim>\<open>utils.defineProperties(this, fields)\<close> gives the object one accessor per field name,
  positionally (the spec: slots are "positionally named"); reading \<^verbatim>\<open>this.gasLimit\<close> is
  reading \<^verbatim>\<open>this.raw[2]\<close>.
\<close>

definition tx_nonce :: "transaction \<Rightarrow> jsval" where "tx_nonce self = nth_js (raw self) 0"
definition tx_gasPrice :: "transaction \<Rightarrow> jsval" where "tx_gasPrice self = nth_js (raw self) 1"
definition tx_gasLimit :: "transaction \<Rightarrow> jsval" where "tx_gasLimit self = nth_js (raw self) 2"
definition tx_to :: "transaction \<Rightarrow> jsval" where "tx_to self = nth_js (raw self) 3"
definition tx_value :: "transaction \<Rightarrow> jsval" where "tx_value self = nth_js (raw self) 4"
definition tx_data :: "transaction \<Rightarrow> jsval" where "tx_data self = nth_js (raw self) 5"
definition tx_v :: "transaction \<Rightarrow> jsval" where "tx_v self = nth_js (raw self) 6"
definition tx_r :: "transaction \<Rightarrow> jsval" where "tx_r self = nth_js (raw self) 7"
definition tx_s :: "transaction \<Rightarrow> jsval" where "tx_s self = nth_js (raw self) 8"

section \<open>Construction\<close>

text \<open>
  Lines 58 to 60: \<^verbatim>\<open>data.forEach(function (d, i) { self.raw[i] = ... })\<close>, a hex string
  converted to a Buffer, anything else stored as it is. The loop runs over the elements of
  \<^verbatim>\<open>data\<close> with the index counting up from \<open>i\<close>.
\<close>

fun forEach_raw :: "env \<Rightarrow> jsval list \<Rightarrow> nat \<Rightarrow> jsval list \<Rightarrow> error + jsval list" where
  "forEach_raw E rw i [] = Inr rw"
| "forEach_raw E rw i (d # ds) =
     (case d of
        String s \<Rightarrow>
          (case hex_Buffer E s of
             Inl e \<Rightarrow> Inl e
           | Inr b \<Rightarrow> forEach_raw E (store rw i (Buffer b)) (Suc i) ds)
      | _ \<Rightarrow> forEach_raw E (store rw i d) (Suc i) ds)"

text \<open>The conditional of lines 75 and 89, applied to the number \<^verbatim>\<open>bufferToInt\<close> returns.\<close>

definition type_of_to :: "int \<Rightarrow> string" where
  "type_of_to n = (if n \<noteq> 0 then ''message'' else ''contract'')"

text \<open>
  \<^verbatim>\<open>Transaction.prototype.parse\<close>, lines 43 to 92. \<open>this_raw\<close> is \<^verbatim>\<open>this.raw\<close> on entry
  (the object has no other state yet), \<open>data\<close> the argument. The branch for six fields
  assigns the padded copy to \<^verbatim>\<open>this.raw\<close>; \<^verbatim>\<open>concat\<close> returns a new array and leaves
  \<^verbatim>\<open>data\<close> as it was, and the test that follows reads \<^verbatim>\<open>data.length\<close>. The type is
  computed from \<^verbatim>\<open>data[3]\<close>. A \<^verbatim>\<open>data\<close> that is not an array has no \<^verbatim>\<open>forEach\<close>.
\<close>

definition parse :: "env \<Rightarrow> jsval list \<Rightarrow> jsval \<Rightarrow> error + transaction" where
  "parse E this_raw data =
     (case data of
        Array ds \<Rightarrow>
          (case forEach_raw E this_raw 0 ds of
             Inl e \<Rightarrow> Inl e
           | Inr raw1 \<Rightarrow>
               (let raw2 = (if length ds = 6 then ds @ [Null, Null, Null] else raw1)
                in if length ds \<noteq> 9 then Inl InvalidFieldCount
                   else if \<not> utils_validate E fields raw2 then Inl AssertionError
                   else (case bufferToInt E (nth_js ds 3) of
                           Inl e \<Rightarrow> Inl e
                         | Inr n \<Rightarrow> Inr \<lparr>raw = raw2, type = type_of_to n\<rparr>)))
      | _ \<Rightarrow> Inl TypeError)"

text \<open>
  The constructor, lines 14 to 36. A missing argument is \<open>Undefined\<close>. With no data the
  defaults themselves are parsed: \<^verbatim>\<open>data\<close> is then the array \<^verbatim>\<open>this.raw\<close>, and the loop
  of \<open>parse\<close> stores each (Buffer) element back where it was read.
\<close>

definition Transaction :: "env \<Rightarrow> jsval \<Rightarrow> error + transaction" where
  "Transaction E data =
     (case (if truthy data \<and> \<not> isArray data
            then (case asBuffer data of Inl e \<Rightarrow> Inl e | Inr b \<Rightarrow> rlp_decode E b)
            else Inr data) of
        Inl e \<Rightarrow> Inl e
      | Inr data1 \<Rightarrow>
          parse E default_raw (if \<not> truthy data1 then Array default_raw else data1))"

section \<open>The setter of \<^verbatim>\<open>to\<close>\<close>

text \<open>
  Lines 77 to 91, the setter that \<open>parse\<close> installs: a value that is not a Buffer is
  converted (a string as hex, anything else by \<^verbatim>\<open>utils.intToBuffer\<close>), the length is
  asserted to be 20, and only then the slot and the type are written.
\<close>

definition set_to :: "env \<Rightarrow> transaction \<Rightarrow> jsval \<Rightarrow> error + transaction" where
  "set_to E self v =
     (case (case v of
              Buffer b \<Rightarrow> Inr b
            | String s \<Rightarrow> hex_Buffer E s
            | _ \<Rightarrow> utils_intToBuffer E v) of
        Inl e \<Rightarrow> Inl e
      | Inr b \<Rightarrow>
          if length b \<noteq> 20 then Inl AssertionError
          else (let raw1 = store (raw self) 3 (Buffer b)
                in case bufferToInt E (nth_js raw1 3) of
                     Inl e \<Rightarrow> Inl e
                   | Inr n \<Rightarrow> Inr (self\<lparr>raw := raw1, type := type_of_to n\<rparr>)))"

section \<open>Serialisation and hashing\<close>


text \<open>\<^verbatim>\<open>xs.slice(0, -k)\<close>: all but the last \<open>k\<close> elements, none when there are fewer.\<close>

definition slice_to_minus :: "'a list \<Rightarrow> nat \<Rightarrow> 'a list" where
  "slice_to_minus xs k = take (length xs - k) xs"

text \<open>
  Lines 109 to 126. The parameter is \<open>Undefined\<close> when the caller leaves it out; the
  digest comes back as a Buffer of the digest's bytes.
\<close>

definition hash :: "env \<Rightarrow> transaction \<Rightarrow> jsval \<Rightarrow> byte list" where
  "hash E self signature =
     (let signature1 = (if signature = Undefined then Boolean True else signature);
          toHash = (if truthy signature1 then raw self else slice_to_minus (raw self) 3)
      in sha3_256 E (rlp_encode E (Array toHash)))"

section \<open>The sender\<close>

text \<open>
  Lines 143 to 162. The hash and the three conversions are computed before the \<^verbatim>\<open>try\<close>;
  only \<^verbatim>\<open>ecdsa.recoverPubKey\<close> is inside it, and the \<^verbatim>\<open>catch\<close> is empty, so that
  \<^verbatim>\<open>key\<close> keeps its initial value \<^verbatim>\<open>false\<close>.
\<close>

definition getSenderPublicKey :: "env \<Rightarrow> transaction \<Rightarrow> error + jsval" where
  "getSenderPublicKey E self =
     (let msgHash = hash E self (Boolean False)
      in case asBuffer (tx_r self) of
           Inl e \<Rightarrow> Inl e
         | Inr rb \<Rightarrow>
             (case asBuffer (tx_s self) of
                Inl e \<Rightarrow> Inl e
              | Inr sb \<Rightarrow>
                  (case bufferToInt E (tx_v self) of
                     Inl e \<Rightarrow> Inl e
                   | Inr vi \<Rightarrow>
                       (case ecdsa_recoverPubKey E (fromBuffer msgHash) (fromBuffer rb)
                               (fromBuffer sb) (vi - 27) of
                          Inl e \<Rightarrow> Inr (Boolean False)
                        | Inr key \<Rightarrow> Inr key))))"

text \<open>Lines 133 to 136: the key goes to \<^verbatim>\<open>utils.pubToAddress\<close> as it is.\<close>

definition getSenderAddress :: "env \<Rightarrow> transaction \<Rightarrow> error + jsval" where
  "getSenderAddress E self =
     (case getSenderPublicKey E self of
        Inl e \<Rightarrow> Inl e
      | Inr pubKey \<Rightarrow> utils_pubToAddress E pubKey)"

section \<open>Fees and validation\<close>

text \<open>
  Lines 182 to 189. \<^verbatim>\<open>bignum\<close> arithmetic is exact, so the fee is an \<open>int\<close>. The slot
  is read as a Buffer (\<open>asBuffer\<close>).
\<close>

definition getDataFee :: "env \<Rightarrow> transaction \<Rightarrow> error + int" where
  "getDataFee E self =
     (case asBuffer (nth_js (raw self) 5) of
        Inl e \<Rightarrow> Inl e
      | Inr data \<Rightarrow>
          if length data = 1 \<and> data ! 0 = 0 then Inr 0
          else Inr (int (length data) * fees_getFee E ''TXDATA''))"

text \<open>Lines 196 to 198.\<close>

definition getBaseFee :: "env \<Rightarrow> transaction \<Rightarrow> error + int" where
  "getBaseFee E self =
     (case getDataFee E self of
        Inl e \<Rightarrow> Inl e
      | Inr fee \<Rightarrow> Inr (fee + fees_getFee E ''TRANSACTION''))"

text \<open>Lines 205 to 209.\<close>

definition getUpfrontCost :: "env \<Rightarrow> transaction \<Rightarrow> error + int" where
  "getUpfrontCost E self =
     (case asBuffer (tx_gasLimit self) of
        Inl e \<Rightarrow> Inl e
      | Inr gasLimit \<Rightarrow>
          (case asBuffer (tx_gasPrice self) of
             Inl e \<Rightarrow> Inl e
           | Inr gasPrice \<Rightarrow>
               (case asBuffer (tx_value self) of
                  Inl e \<Rightarrow> Inl e
                | Inr val \<Rightarrow>
                    Inr (fromBuffer gasLimit * fromBuffer gasPrice + fromBuffer val))))"

text \<open>
  Lines 216 to 218. \<^verbatim>\<open>&&\<close> evaluates its right operand only when the left one is true.
  The comparison is between the fee, a \<^verbatim>\<open>bignum\<close>, and the number that
  \<^verbatim>\<open>utils.bufferToInt\<close> returns; the model compares the two integers (JavaScript numbers
  are exact up to \<open>2 ^ 53\<close>).
\<close>

definition validate :: "env \<Rightarrow> transaction \<Rightarrow> error + bool" where
  "validate E self =
     (if ecdsaOps_verifySignature E self
      then (case getBaseFee E self of
              Inl e \<Rightarrow> Inl e
            | Inr fee \<Rightarrow>
                (case bufferToInt E (tx_gasLimit self) of
                   Inl e \<Rightarrow> Inl e
                 | Inr gasLimit \<Rightarrow> Inr (fee \<le> gasLimit)))
      else Inr False)"

section \<open>The spec's reading of a numeric field\<close>

text \<open>
  The spec reads a numeric field as an unsigned big-endian integer: the byte at position
  \<open>i\<close> of \<open>n\<close> bytes weighs \<open>256 ^ (n - 1 - i)\<close>. This definition follows the spec's
  words; \<open>fromBuffer\<close> above follows the libraries.
\<close>

definition unsigned_big_endian :: "byte list \<Rightarrow> int" where
  "unsigned_big_endian bs = (\<Sum>i<length bs. uint (bs ! i) * 256 ^ (length bs - 1 - i))"

section \<open>An instance of the environment\<close>

text \<open>
  To run the model on concrete transactions the parameters need values. \<open>demo_env\<close>
  supplies the recursive-length-prefix encoding as the Ethereum wire format defines it
  (a single byte below \<open>0x80\<close> is its own encoding; a string of up to 55 bytes is
  prefixed with \<open>0x80 + length\<close>, a list with \<open>0xc0 + length\<close>; longer ones with the
  length of the length), a hex reader, and the two fee constants. The decoder reads the
  empty string \<open>0x80\<close> as the single zero byte, the sentinel the spec describes
  ("empty/zero encoded as a single zero byte or empty string per codec convention"), so
  an empty field does not come back from this codec as it went in. On a hex string
  \<^verbatim>\<open>utils.bufferToInt\<close> answers with the number the string spells, and
  \<^verbatim>\<open>utils.pubToAddress\<close> raises on a key that is not a Buffer, having no bytes to
  digest. The cryptographic primitives are placeholders with the right shape only: the
  digest pads or cuts its input to 32 bytes, key recovery fails unless \<open>r\<close> and \<open>s\<close>
  are positive and the recovery index is 0 or 1, and a signature verifies when \<open>r\<close> and
  \<open>s\<close> are non-zero.
  The general theorems below hold for every environment; the instance serves to evaluate
  them, and the code, at concrete inputs.
\<close>

fun be_bytes :: "nat \<Rightarrow> byte list" where
  "be_bytes n = (if n = 0 then [] else be_bytes (n div 256) @ [of_nat (n mod 256)])"

declare be_bytes.simps [simp del]

definition encode_length :: "nat \<Rightarrow> nat \<Rightarrow> byte list" where
  "encode_length len offset =
     (if len < 56 then [of_nat (len + offset)]
      else (let lb = be_bytes len in of_nat (length lb + offset + 55) # lb))"

definition demo_rlp_string :: "byte list \<Rightarrow> byte list" where
  "demo_rlp_string b =
     (if length b = 1 \<and> b ! 0 < 0x80 then b else encode_length (length b) 0x80 @ b)"

fun demo_rlp_encode :: "jsval \<Rightarrow> byte list" where
  "demo_rlp_encode (Array xs) =
     (let payload = concat (map demo_rlp_encode xs)
      in encode_length (length payload) 0xc0 @ payload)"
| "demo_rlp_encode (Buffer b) = demo_rlp_string b"
| "demo_rlp_encode (String s) = demo_rlp_string (map of_char s)"
| "demo_rlp_encode v = demo_rlp_string []"

text \<open>
  Decoding one item from the front of the input, with the rest of the input; the fuel
  bounds the nesting and the number of items, and the length of the input is enough.
\<close>

fun demo_rlp_item :: "nat \<Rightarrow> byte list \<Rightarrow> (jsval \<times> byte list) option"
  and demo_rlp_items :: "nat \<Rightarrow> byte list \<Rightarrow> jsval list option" where
  "demo_rlp_item 0 bs = None"
| "demo_rlp_item (Suc n) [] = None"
| "demo_rlp_item (Suc n) (b # bs) =
     (let t = unat b in
      if t < 0x80 then Some (Buffer [b], bs)
      else if t < 0xb8 then
        (let l = t - 0x80
         in if l = 0 then Some (Buffer [0], bs)
            else if length bs < l then None else Some (Buffer (take l bs), drop l bs))
      else if t < 0xc0 then
        (let ll = t - 0xb7; l = nat (fromBuffer (take ll bs)); r = drop ll bs
         in if length bs < ll \<or> length r < l then None
            else Some (Buffer (take l r), drop l r))
      else if t < 0xf8 then
        (let l = t - 0xc0
         in if length bs < l then None
            else (case demo_rlp_items n (take l bs) of
                    None \<Rightarrow> None
                  | Some xs \<Rightarrow> Some (Array xs, drop l bs)))
      else
        (let ll = t - 0xf7; l = nat (fromBuffer (take ll bs)); r = drop ll bs
         in if length bs < ll \<or> length r < l then None
            else (case demo_rlp_items n (take l r) of
                    None \<Rightarrow> None
                  | Some xs \<Rightarrow> Some (Array xs, drop l r))))"
| "demo_rlp_items 0 bs = None"
| "demo_rlp_items (Suc n) [] = Some []"
| "demo_rlp_items (Suc n) (b # bs) =
     (case demo_rlp_item n (b # bs) of
        None \<Rightarrow> None
      | Some (x, r) \<Rightarrow>
          (case demo_rlp_items n r of
             None \<Rightarrow> None
           | Some xs \<Rightarrow> Some (x # xs)))"

definition demo_rlp_decode :: "byte list \<Rightarrow> error + jsval" where
  "demo_rlp_decode bs =
     (case demo_rlp_item (Suc (length bs)) bs of
        Some (x, []) \<Rightarrow> Inr x
      | _ \<Rightarrow> Inl MalformedEncoding)"

definition hex_digit :: "char \<Rightarrow> nat option" where
  "hex_digit c =
     (let n = (of_char c :: nat)
      in if 48 \<le> n \<and> n \<le> 57 then Some (n - 48)
         else if 97 \<le> n \<and> n \<le> 102 then Some (n - 87)
         else if 65 \<le> n \<and> n \<le> 70 then Some (n - 55)
         else None)"

fun demo_hex :: "string \<Rightarrow> error + byte list" where
  "demo_hex [] = Inr []"
| "demo_hex [c] = Inl InvalidHexString"
| "demo_hex (c # d # cs) =
     (case (hex_digit c, hex_digit d, demo_hex cs) of
        (Some x, Some y, Inr bs) \<Rightarrow> Inr (of_nat (16 * x + y) # bs)
      | _ \<Rightarrow> Inl InvalidHexString)"

definition demo_digest :: "byte list \<Rightarrow> byte list" where
  "demo_digest bs = take 32 (bs @ replicate 32 0)"

definition demo_env :: env where
  "demo_env =
     \<lparr>rlp_encode = demo_rlp_encode,
      rlp_decode = demo_rlp_decode,
      sha3_256 = demo_digest,
      hex_Buffer = demo_hex,
      utils_validate = (\<lambda>names rw. True),
      utils_bufferToInt_other =
        (\<lambda>v. case v of
               String s \<Rightarrow> (case demo_hex s of Inl e \<Rightarrow> Inl e | Inr b \<Rightarrow> Inr (fromBuffer b))
             | _ \<Rightarrow> Inl TypeError),
      utils_intToBuffer =
        (\<lambda>v. case v of Number n \<Rightarrow> Inr (be_bytes (nat n)) | _ \<Rightarrow> Inl TypeError),
      utils_pubToAddress =
        (\<lambda>v. case v of
               Buffer k \<Rightarrow> Inr (Buffer (drop 12 (demo_digest (drop 1 k))))
             | _ \<Rightarrow> Inl TypeError),
      fees_getFee =
        (\<lambda>name. if name = ''TXDATA'' then 5 else if name = ''TRANSACTION'' then 500 else 0),
      ecdsa_recoverPubKey =
        (\<lambda>e r s v. if 0 < r \<and> 0 < s \<and> (v = 0 \<or> v = 1)
                   then Inr (Buffer (4 # replicate 64 1)) else Inl RecoveryFailure),
      ecdsaOps_verifySignature =
        (\<lambda>self. case (asBuffer (tx_r self), asBuffer (tx_s self)) of
                  (Inr r, Inr s) \<Rightarrow> fromBuffer r \<noteq> 0 \<and> fromBuffer s \<noteq> 0
                | _ \<Rightarrow> False)\<rparr>"

section \<open>Arrays and the loop of \<open>parse\<close>\<close>

lemma length_store: "length (store xs i v) = max (length xs) (Suc i)"
  by (simp add: store_def)

lemma nth_js_store_same: "nth_js (store xs i v) i = v"
  by (simp add: store_def nth_js_def nth_append)

lemma nth_js_store_other: "j \<noteq> i \<Longrightarrow> nth_js (store xs i v) j = nth_js xs j"
  by (auto simp: store_def nth_js_def nth_append)

lemma forEach_raw_below:
  "forEach_raw E rw i ds = Inr r \<Longrightarrow> j < i \<Longrightarrow> nth_js r j = nth_js rw j"
proof (induction ds arbitrary: rw i)
  case Nil
  then show ?case by simp
next
  case (Cons d ds)
  from Cons.prems(1) obtain x where r: "forEach_raw E (store rw i x) (Suc i) ds = Inr r"
    by (cases d) (auto split: sum.splits)
  from Cons.IH [OF r] Cons.prems(2) have "nth_js r j = nth_js (store rw i x) j"
    by simp
  with Cons.prems(2) show ?case by (simp add: nth_js_store_other)
qed

lemma forEach_raw_Buffer:
  "forEach_raw E rw i ds = Inr r \<Longrightarrow> k < length ds \<Longrightarrow> ds ! k = Buffer t \<Longrightarrow>
   nth_js r (i + k) = Buffer t"
proof (induction ds arbitrary: rw i k)
  case Nil
  then show ?case by simp
next
  case (Cons d ds)
  show ?case
  proof (cases k)
    case 0
    with Cons.prems have d: "d = Buffer t" by simp
    with Cons.prems have "forEach_raw E (store rw i d) (Suc i) ds = Inr r" by simp
    from forEach_raw_below [OF this, of i] have "nth_js r i = d"
      by (simp add: nth_js_store_same)
    with 0 d show ?thesis by simp
  next
    case (Suc k')
    from Cons.prems(1) obtain rw' where "forEach_raw E rw' (Suc i) ds = Inr r"
      by (cases d) (auto split: sum.splits)
    from Cons.IH [OF this, of k'] Cons.prems Suc show ?thesis by simp
  qed
qed

lemma forEach_raw_length:
  "forEach_raw E rw i ds = Inr r \<Longrightarrow> i \<le> length rw \<Longrightarrow>
   length r = max (length rw) (i + length ds)"
proof (induction ds arbitrary: rw i)
  case Nil
  then show ?case by simp
next
  case (Cons d ds)
  from Cons.prems(1) obtain x where r: "forEach_raw E (store rw i x) (Suc i) ds = Inr r"
    by (cases d) (auto split: sum.splits)
  from Cons.IH [OF r] Cons.prems(2) show ?case
    by (simp add: length_store max_def split: if_splits)
qed

lemma forEach_raw_Buffers:
  "i + length fs \<le> length rw \<Longrightarrow>
   forEach_raw E rw i (map Buffer fs) =
     Inr (take i rw @ map Buffer fs @ drop (i + length fs) rw)"
proof (induction fs arbitrary: rw i)
  case Nil
  then show ?case by simp
next
  case (Cons f fs)
  then have i: "i < length rw" by simp
  have "forEach_raw E rw i (map Buffer (f # fs)) =
        forEach_raw E (rw[i := Buffer f]) (Suc i) (map Buffer fs)"
    using i by (simp add: store_def)
  also have "\<dots> = Inr (take (Suc i) (rw[i := Buffer f]) @ map Buffer fs @
                       drop (Suc i + length fs) (rw[i := Buffer f]))"
    using Cons.prems by (intro Cons.IH) simp
  also have "take (Suc i) (rw[i := Buffer f]) = take i rw @ [Buffer f]"
    using i by (simp add: take_Suc_conv_app_nth)
  finally show ?case by simp
qed

section \<open>Field count\<close>

lemma parse_wrong_length:
  "length ds \<noteq> 9 \<Longrightarrow> forEach_raw E rw 0 ds = Inr raw1 \<Longrightarrow>
   parse E rw (Array ds) = Inl InvalidFieldCount"
  by (simp add: parse_def Let_def)

lemma Transaction_Array: "Transaction E (Array ds) = parse E default_raw (Array ds)"
  by (simp add: Transaction_def)

lemma six_fields_never_construct:
  "length ds = 6 \<Longrightarrow> Transaction E (Array ds) \<noteq> Inr tx"
  by (auto simp: Transaction_Array parse_def Let_def split: sum.splits)

text \<open>
  C1. The claim: a list of six fields is padded with three placeholders and construction
  succeeds. On the code it does not: the padded copy is assigned to \<^verbatim>\<open>this.raw\<close>, but
  line 68 tests \<^verbatim>\<open>data.length\<close>, which is still 6, and line 69 throws. Here the draft
  is nonce 0, gas price 1, gas limit 10000, no recipient, value 5, no payload.
\<close>

theorem six_fields_rejected:
  "Transaction demo_env
     (Array [Buffer [0], Buffer [1], Buffer [0x27, 0x10], Buffer [], Buffer [5], Buffer []])
   = Inl InvalidFieldCount"
  by (simp add: Transaction_Array parse_def store_def)

section \<open>Numeric reading of a Buffer\<close>

lemma fromBuffer_Nil: "fromBuffer [] = 0"
  by (simp add: fromBuffer_def)

lemma fromBuffer_snoc: "fromBuffer (bs @ [b]) = fromBuffer bs * 256 + uint b"
  by (simp add: fromBuffer_def)

lemma fromBuffer_nonneg: "0 \<le> fromBuffer bs"
  by (induction bs rule: rev_induct) (simp_all add: fromBuffer_Nil fromBuffer_snoc)

lemma unsigned_big_endian_snoc:
  "unsigned_big_endian (bs @ [b]) = unsigned_big_endian bs * 256 + uint b"
proof -
  have "(\<Sum>i<length bs. uint ((bs @ [b]) ! i) * 256 ^ (length bs - i)) =
        (\<Sum>i<length bs. (uint (bs ! i) * 256 ^ (length bs - 1 - i)) * 256)"
  proof (rule sum.cong)
    fix i assume "i \<in> {..<length bs}"
    then have i: "i < length bs" by simp
    then have "length bs - i = Suc (length bs - 1 - i)" by simp
    then have "(256::int) ^ (length bs - i) = 256 ^ (length bs - 1 - i) * 256"
      by simp
    with i show "uint ((bs @ [b]) ! i) * 256 ^ (length bs - i) =
                 (uint (bs ! i) * 256 ^ (length bs - 1 - i)) * 256"
      by (simp add: nth_append)
  qed simp
  then show ?thesis
    by (simp add: unsigned_big_endian_def sum_distrib_right)
qed

lemma fromBuffer_big_endian: "fromBuffer bs = unsigned_big_endian bs"
proof (induction bs rule: rev_induct)
  case Nil
  show ?case by (simp add: fromBuffer_Nil unsigned_big_endian_def)
next
  case (snoc b bs)
  then show ?case by (simp add: fromBuffer_snoc unsigned_big_endian_snoc)
qed

lemma fromBuffer_zero_iff: "fromBuffer bs = 0 \<longleftrightarrow> bs = replicate (length bs) 0"
proof (induction bs rule: rev_induct)
  case Nil
  show ?case by (simp add: fromBuffer_Nil)
next
  case (snoc b bs)
  have "fromBuffer (bs @ [b]) = 0 \<longleftrightarrow> fromBuffer bs = 0 \<and> uint b = 0"
  proof -
    have "0 \<le> fromBuffer bs" and "0 \<le> uint b"
      by (simp_all add: fromBuffer_nonneg)
    then show ?thesis
      unfolding fromBuffer_snoc by arith
  qed
  also have "\<dots> \<longleftrightarrow> bs = replicate (length bs) 0 \<and> b = 0"
    using snoc.IH by (simp add: uint_0_iff)
  also have "\<dots> \<longleftrightarrow> bs @ [b] = replicate (length (bs @ [b])) 0"
    by (simp add: replicate_append_same [symmetric])
  finally show ?case .
qed

section \<open>Upfront cost\<close>

text \<open>
  C9. \<^verbatim>\<open>getUpfrontCost()\<close> is \<open>gasLimit * gasPrice + value\<close>, each field read as an
  unsigned big-endian integer of whatever length, the arithmetic being that of the
  unbounded integers: nothing is reduced modulo a word size.
\<close>

theorem getUpfrontCost_exact:
  "tx_gasLimit self = Buffer gasLimit \<Longrightarrow> tx_gasPrice self = Buffer gasPrice \<Longrightarrow>
   tx_value self = Buffer val \<Longrightarrow>
   getUpfrontCost E self =
     Inr (unsigned_big_endian gasLimit * unsigned_big_endian gasPrice
          + unsigned_big_endian val)"
  by (simp add: getUpfrontCost_def fromBuffer_big_endian)

text \<open>
  A gas limit of nine bytes (\<open>2 ^ 64\<close>), gas price 2 and value 1: the cost is
  \<open>2 ^ 65 + 1\<close>, beyond 64 bits.
\<close>

theorem getUpfrontCost_exact_witness:
  "tx_gasLimit \<lparr>raw = [Buffer [0], Buffer [2], Buffer [1, 0, 0, 0, 0, 0, 0, 0, 0], Buffer [],
                      Buffer [1], Buffer [], Buffer [0x1c], Buffer [1], Buffer [1]],
                type = ''contract''\<rparr> = Buffer [1, 0, 0, 0, 0, 0, 0, 0, 0] \<and>
   getUpfrontCost demo_env
     \<lparr>raw = [Buffer [0], Buffer [2], Buffer [1, 0, 0, 0, 0, 0, 0, 0, 0], Buffer [],
             Buffer [1], Buffer [], Buffer [0x1c], Buffer [1], Buffer [1]],
      type = ''contract''\<rparr> = Inr (2 ^ 65 + 1)"
  using getUpfrontCost_exact [of "\<lparr>raw = [Buffer [0], Buffer [2], Buffer [1, 0, 0, 0, 0, 0, 0, 0, 0], Buffer [],
             Buffer [1], Buffer [], Buffer [0x1c], Buffer [1], Buffer [1]],
      type = ''contract''\<rparr>" "[1, 0, 0, 0, 0, 0, 0, 0, 0]" "[2]" "[1]" demo_env]
  by (simp add: tx_gasLimit_def tx_gasPrice_def tx_value_def nth_js_def
      fromBuffer_big_endian [symmetric] fromBuffer_def)

section \<open>The instance's constants\<close>

lemma demo_fees:
  "fees_getFee demo_env ''TXDATA'' = 5" "fees_getFee demo_env ''TRANSACTION'' = 500"
  by (simp_all add: demo_env_def)

lemma demo_verifySignature:
  "ecdsaOps_verifySignature demo_env self =
     (case (asBuffer (tx_r self), asBuffer (tx_s self)) of
        (Inr r, Inr s) \<Rightarrow> fromBuffer r \<noteq> 0 \<and> fromBuffer s \<noteq> 0
      | _ \<Rightarrow> False)"
  by (simp add: demo_env_def)

section \<open>Data fee\<close>

lemma single_zero: "length d = 1 \<and> d ! 0 = (0::byte) \<longleftrightarrow> d = [0]"
  by (cases d) auto

text \<open>
  C7. \<^verbatim>\<open>getDataFee()\<close> is 0 when the payload is the single zero byte, and otherwise
  the payload's length times the \<^verbatim>\<open>TXDATA\<close> fee.
\<close>

theorem getDataFee_sentinel:
  "nth_js (raw self) 5 = Buffer d \<Longrightarrow>
   getDataFee E self =
     Inr (if d = [0] then 0 else int (length d) * fees_getFee E ''TXDATA'')"
  using single_zero [of d] by (simp add: getDataFee_def)

text \<open>
  The default payload \<open>[0x00]\<close> costs nothing, three bytes cost \<open>3 * 5\<close>, and the empty
  payload \<open>0 * 5\<close>.
\<close>

theorem getDataFee_sentinel_witness:
  "getDataFee demo_env \<lparr>raw = default_raw, type = ''contract''\<rparr> = Inr 0 \<and>
   getDataFee demo_env
     \<lparr>raw = [Buffer [0], Buffer [1], Buffer [2], Buffer [], Buffer [0], Buffer [0, 0, 7],
             Buffer [0x1c], Buffer [1], Buffer [1]], type = ''contract''\<rparr> = Inr 15 \<and>
   getDataFee demo_env
     \<lparr>raw = [Buffer [0], Buffer [1], Buffer [2], Buffer [], Buffer [0], Buffer [],
             Buffer [0x1c], Buffer [1], Buffer [1]], type = ''contract''\<rparr> = Inr 0"
  using getDataFee_sentinel [of "\<lparr>raw = default_raw, type = ''contract''\<rparr>" "[0]" demo_env]
    getDataFee_sentinel [of "\<lparr>raw = [Buffer [0], Buffer [1], Buffer [2], Buffer [], Buffer [0],
             Buffer [0, 0, 7], Buffer [0x1c], Buffer [1], Buffer [1]], type = ''contract''\<rparr>"
             "[0, 0, 7]" demo_env]
    getDataFee_sentinel [of "\<lparr>raw = [Buffer [0], Buffer [1], Buffer [2], Buffer [], Buffer [0],
             Buffer [], Buffer [0x1c], Buffer [1], Buffer [1]], type = ''contract''\<rparr>"
             "[]" demo_env]
  by (simp add: nth_js_def default_raw_def demo_fees)

section \<open>Validation\<close>

lemma getBaseFee_Buffer:
  "nth_js (raw self) 5 = Buffer d \<Longrightarrow>
   getBaseFee E self =
     Inr ((if d = [0] then 0 else int (length d) * fees_getFee E ''TXDATA'')
          + fees_getFee E ''TRANSACTION'')"
  using single_zero [of d] by (simp add: getBaseFee_def getDataFee_def)

text \<open>
  C5. \<^verbatim>\<open>validate()\<close> is true exactly when \<^verbatim>\<open>verifySignature()\<close> is true and the base
  fee is at most the gas limit, the gas limit being the unsigned integer its bytes spell
  and not their number; so it is false whenever the gas limit is below the base fee,
  whatever the signature.
\<close>

theorem validate_gated_by_gas:
  "getBaseFee E self = Inr fee \<Longrightarrow> tx_gasLimit self = Buffer gasLimit \<Longrightarrow>
   validate E self =
     Inr (ecdsaOps_verifySignature E self \<and> fee \<le> unsigned_big_endian gasLimit) \<and>
   (unsigned_big_endian gasLimit < fee \<longrightarrow> validate E self = Inr False)"
  by (simp add: validate_def bufferToInt_def fromBuffer_big_endian)

text \<open>
  With a base fee of 500, a gas limit of \<open>0x01f4 = 500\<close> (two bytes) validates and
  \<open>0x01f3 = 499\<close> does not, under a signature that verifies.
\<close>

theorem validate_gated_by_gas_witness:
  "getBaseFee demo_env
     \<lparr>raw = [Buffer [0], Buffer [1], Buffer [1, 0xf4], Buffer [], Buffer [0], Buffer [0],
             Buffer [0x1c], Buffer [1], Buffer [1]], type = ''contract''\<rparr> = Inr 500 \<and>
   validate demo_env
     \<lparr>raw = [Buffer [0], Buffer [1], Buffer [1, 0xf4], Buffer [], Buffer [0], Buffer [0],
             Buffer [0x1c], Buffer [1], Buffer [1]], type = ''contract''\<rparr> = Inr True \<and>
   getBaseFee demo_env
     \<lparr>raw = [Buffer [0], Buffer [1], Buffer [1, 0xf3], Buffer [], Buffer [0], Buffer [0],
             Buffer [0x1c], Buffer [1], Buffer [1]], type = ''contract''\<rparr> = Inr 500 \<and>
   validate demo_env
     \<lparr>raw = [Buffer [0], Buffer [1], Buffer [1, 0xf3], Buffer [], Buffer [0], Buffer [0],
             Buffer [0x1c], Buffer [1], Buffer [1]], type = ''contract''\<rparr> = Inr False"
  using validate_gated_by_gas [of demo_env "\<lparr>raw = [Buffer [0], Buffer [1], Buffer [1, 0xf4],
             Buffer [], Buffer [0], Buffer [0], Buffer [0x1c], Buffer [1], Buffer [1]],
             type = ''contract''\<rparr>" 500 "[1, 0xf4]"]
    validate_gated_by_gas [of demo_env "\<lparr>raw = [Buffer [0], Buffer [1], Buffer [1, 0xf3],
             Buffer [], Buffer [0], Buffer [0], Buffer [0x1c], Buffer [1], Buffer [1]],
             type = ''contract''\<rparr>" 500 "[1, 0xf3]"]
  by (simp add: getBaseFee_Buffer nth_js_def tx_gasLimit_def tx_r_def tx_s_def demo_fees
      demo_verifySignature
      fromBuffer_big_endian [symmetric] fromBuffer_def)

section \<open>What construction establishes\<close>

lemma parse_Inr:
  assumes "parse E rw data = Inr tx"
  obtains ds n where "data = Array ds" "length ds = 9" "forEach_raw E rw 0 ds = Inr (raw tx)"
    "utils_validate E fields (raw tx)" "bufferToInt E (nth_js ds 3) = Inr n"
    "type tx = type_of_to n"
  using assms
  by (cases data) (auto simp: parse_def Let_def split: sum.splits if_splits)

lemma Transaction_Inr:
  "Transaction E data = Inr tx \<Longrightarrow> \<exists>data'. parse E default_raw data' = Inr tx"
  by (auto simp: Transaction_def split: sum.splits if_splits)

lemma length_default_raw: "length default_raw = 9"
  by (simp add: default_raw_def)

lemma constructed_length:
  assumes "Transaction E data = Inr tx"
  shows "length (raw tx) = 9"
proof -
  from assms obtain data' where "parse E default_raw data' = Inr tx"
    by (blast dest: Transaction_Inr)
  then obtain ds where "length ds = 9" "forEach_raw E default_raw 0 ds = Inr (raw tx)"
    by (rule parse_Inr)
  then show ?thesis
    using forEach_raw_length [of E default_raw 0 ds "raw tx"]
    by (simp add: length_default_raw)
qed

lemma constructed_validated:
  assumes "Transaction E data = Inr tx"
  shows "utils_validate E fields (raw tx)"
proof -
  from assms obtain data' where "parse E default_raw data' = Inr tx"
    by (blast dest: Transaction_Inr)
  then show ?thesis by (rule parse_Inr)
qed

lemma constructed_from_Buffers:
  assumes "Transaction E (Array (map Buffer fs)) = Inr tx"
  shows "raw tx = map Buffer fs"
proof -
  from assms have p: "parse E default_raw (Array (map Buffer fs)) = Inr tx"
    by (simp add: Transaction_Array)
  then obtain ds where ds: "Array (map Buffer fs) = Array ds" "length ds = 9"
    and loop: "forEach_raw E default_raw 0 ds = Inr (raw tx)"
    by (rule parse_Inr)
  from ds have "length fs = 9" by auto
  then have "forEach_raw E default_raw 0 (map Buffer fs) = Inr (map Buffer fs)"
    using forEach_raw_Buffers [of 0 fs default_raw E] by (simp add: length_default_raw)
  with loop ds show ?thesis by simp
qed

lemma set_to_length:
  "set_to E self v = Inr tx' \<Longrightarrow> length (raw self) = 9 \<Longrightarrow> length (raw tx') = 9"
  by (auto simp: set_to_def Let_def length_store split: sum.splits if_splits)

lemma forEach_raw_default: "forEach_raw E default_raw 0 default_raw = Inr default_raw"
  using forEach_raw_Buffers [of 0 "[[0], [0], [0], [0], [0], [0], [0x1c], zero256, zero256]"
      default_raw E]
  by (simp add: default_raw_def)

lemma fromBuffer_single_zero: "fromBuffer [0] = 0"
  by (simp add: fromBuffer_def)

text \<open>
  C10. A transaction constructed with no argument keeps the defaults: the first six
  fields are the single zero byte, \<^verbatim>\<open>v\<close> is the byte \<open>0x1c\<close>, \<^verbatim>\<open>r\<close> and \<^verbatim>\<open>s\<close> are 32
  zero bytes, and the type is \<^verbatim>\<open>'contract'\<close>. Nothing is decoded on the way (the
  statement holds for every \<open>rlp_decode\<close>). \<^verbatim>\<open>utils.validate\<close> must accept the
  defaults, as it must for \<^verbatim>\<open>new Transaction()\<close> to return at all.
\<close>

theorem default_transaction:
  "utils_validate E fields default_raw \<Longrightarrow>
   Transaction E Undefined =
     Inr \<lparr>raw = [Buffer [0], Buffer [0], Buffer [0], Buffer [0], Buffer [0], Buffer [0],
                Buffer [0x1c], Buffer (replicate 32 0), Buffer (replicate 32 0)],
          type = ''contract''\<rparr>"
proof -
  assume ok: "utils_validate E fields default_raw"
  have to: "nth_js default_raw 3 = Buffer [0]"
    by (simp add: nth_js_def default_raw_def)
  have "Transaction E Undefined = parse E default_raw (Array default_raw)"
    by (simp add: Transaction_def)
  also have "\<dots> = Inr \<lparr>raw = default_raw, type = ''contract''\<rparr>"
    using ok to
    by (simp add: parse_def forEach_raw_default length_default_raw bufferToInt_def
        fromBuffer_single_zero type_of_to_def)
  finally show ?thesis
    by (simp add: default_raw_def zero256_def)
qed

text \<open>
  In the instance above the validation accepts the defaults.
\<close>

theorem default_transaction_witness:
  "utils_validate demo_env fields default_raw \<and>
   Transaction demo_env Undefined =
     Inr \<lparr>raw = [Buffer [0], Buffer [0], Buffer [0], Buffer [0], Buffer [0], Buffer [0],
                Buffer [0x1c], Buffer (replicate 32 0), Buffer (replicate 32 0)],
          type = ''contract''\<rparr>"
proof -
  have ok: "utils_validate demo_env fields default_raw"
    by (simp add: demo_env_def)
  from ok default_transaction [OF ok] show ?thesis by blast
qed

section \<open>Hashing\<close>

lemma raw_nine:
  "length (raw self) = 9 \<Longrightarrow>
   raw self = [tx_nonce self, tx_gasPrice self, tx_gasLimit self, tx_to self, tx_value self,
               tx_data self, tx_v self, tx_r self, tx_s self]"
  by (rule nth_equalityI)
    (auto simp: tx_nonce_def tx_gasPrice_def tx_gasLimit_def tx_to_def tx_value_def
      tx_data_def tx_v_def tx_r_def tx_s_def nth_js_def nth_Cons' less_Suc_eq numeral_eq_Suc)

lemma unsigned_six:
  "length (raw self) = 9 \<Longrightarrow>
   slice_to_minus (raw self) 3 =
     [tx_nonce self, tx_gasPrice self, tx_gasLimit self, tx_to self, tx_value self,
      tx_data self]"
proof -
  assume n: "length (raw self) = 9"
  have "slice_to_minus (raw self) 3 = take 6 (raw self)"
    by (simp add: slice_to_minus_def n)
  also have "\<dots> = take 6 [tx_nonce self, tx_gasPrice self, tx_gasLimit self, tx_to self,
      tx_value self, tx_data self, tx_v self, tx_r self, tx_s self]"
    using raw_nine [OF n] by simp
  finally show ?thesis by simp
qed

lemma hash_unsigned:
  "length (raw self) = 9 \<Longrightarrow>
   hash E self (Boolean False) =
     sha3_256 E (rlp_encode E (Array [tx_nonce self, tx_gasPrice self, tx_gasLimit self,
                                       tx_to self, tx_value self, tx_data self]))"
  by (simp add: hash_def unsigned_six)

text \<open>
  C3. With the signature flag true or left out, \<^verbatim>\<open>hash\<close> digests the encoding of all
  nine fields; with the flag false, the encoding of the first six (nonce, gasPrice,
  gasLimit, to, value, data). Nine fields is what every constructed transaction has
  (\<open>constructed_length\<close>, kept by the setter: \<open>set_to_length\<close>).
\<close>

theorem hash_field_selection:
  "length (raw self) = 9 \<Longrightarrow>
   hash E self Undefined = sha3_256 E (rlp_encode E (Array (raw self))) \<and>
   hash E self (Boolean True) = sha3_256 E (rlp_encode E (Array (raw self))) \<and>
   hash E self (Boolean False) =
     sha3_256 E (rlp_encode E (Array [tx_nonce self, tx_gasPrice self, tx_gasLimit self,
                                       tx_to self, tx_value self, tx_data self])) \<and>
   raw self = [tx_nonce self, tx_gasPrice self, tx_gasLimit self, tx_to self, tx_value self,
               tx_data self, tx_v self, tx_r self, tx_s self]"
proof (intro impI conjI)
  assume n: "length (raw self) = 9"
  show "hash E self Undefined = sha3_256 E (rlp_encode E (Array (raw self)))"
    by (simp add: hash_def)
  show "hash E self (Boolean True) = sha3_256 E (rlp_encode E (Array (raw self)))"
    by (simp add: hash_def)
  show "hash E self (Boolean False) =
     sha3_256 E (rlp_encode E (Array [tx_nonce self, tx_gasPrice self, tx_gasLimit self,
                                       tx_to self, tx_value self, tx_data self]))"
    using n by (rule hash_unsigned)
  show "raw self = [tx_nonce self, tx_gasPrice self, tx_gasLimit self, tx_to self,
               tx_value self, tx_data self, tx_v self, tx_r self, tx_s self]"
    using n by (rule raw_nine)
qed

lemma demo_codec:
  "rlp_encode demo_env = demo_rlp_encode" "rlp_decode demo_env = demo_rlp_decode"
  "sha3_256 demo_env = demo_digest"
  by (simp_all add: demo_env_def)

lemma default_unsigned:
  "[tx_nonce \<lparr>raw = default_raw, type = t\<rparr>, tx_gasPrice \<lparr>raw = default_raw, type = t\<rparr>,
    tx_gasLimit \<lparr>raw = default_raw, type = t\<rparr>, tx_to \<lparr>raw = default_raw, type = t\<rparr>,
    tx_value \<lparr>raw = default_raw, type = t\<rparr>, tx_data \<lparr>raw = default_raw, type = t\<rparr>]
   = replicate 6 (Buffer [0])"
  by (simp add: tx_nonce_def tx_gasPrice_def tx_gasLimit_def tx_to_def tx_value_def
      tx_data_def nth_js_def default_raw_def numeral_eq_Suc)

text \<open>
  The default transaction under the instance: all nine fields, and the six zero bytes.
\<close>

theorem hash_field_selection_witness:
  "length (raw \<lparr>raw = default_raw, type = ''contract''\<rparr>) = 9 \<and>
   hash demo_env \<lparr>raw = default_raw, type = ''contract''\<rparr> Undefined =
     demo_digest (demo_rlp_encode (Array default_raw)) \<and>
   hash demo_env \<lparr>raw = default_raw, type = ''contract''\<rparr> (Boolean False) =
     demo_digest (demo_rlp_encode (Array (replicate 6 (Buffer [0]))))"
proof -
  have n: "length (raw \<lparr>raw = default_raw, type = ''contract''\<rparr>) = 9"
    by (simp add: length_default_raw)
  from hash_field_selection [OF n, of demo_env] n show ?thesis
    by (simp only: demo_codec default_unsigned) simp
qed

text \<open>
  C8. The unsigned hash \<^verbatim>\<open>hash(false)\<close> does not read \<^verbatim>\<open>v\<close>, \<^verbatim>\<open>r\<close> or \<^verbatim>\<open>s\<close>: two
  transactions that agree on the first six fields have the same unsigned hash.
\<close>

theorem unsigned_hash_frame:
  "length (raw a) = 9 \<Longrightarrow> length (raw b) = 9 \<Longrightarrow>
   tx_nonce a = tx_nonce b \<Longrightarrow> tx_gasPrice a = tx_gasPrice b \<Longrightarrow>
   tx_gasLimit a = tx_gasLimit b \<Longrightarrow> tx_to a = tx_to b \<Longrightarrow> tx_value a = tx_value b \<Longrightarrow>
   tx_data a = tx_data b \<Longrightarrow>
   hash E a (Boolean False) = hash E b (Boolean False)"
  by (simp add: hash_unsigned)

lemma unsigned_hash_ignores_signature:
  "length (raw self) = 9 \<Longrightarrow>
   hash E (self\<lparr>raw := (raw self)[6 := v, 7 := r, 8 := s]\<rparr>) (Boolean False) =
   hash E self (Boolean False)"
  by (simp add: hash_unsigned tx_nonce_def tx_gasPrice_def tx_gasLimit_def tx_to_def
      tx_value_def tx_data_def nth_js_def)

text \<open>
  The default transaction and one with another signature have the same unsigned hash.
\<close>

theorem unsigned_hash_frame_witness:
  "hash demo_env \<lparr>raw = default_raw, type = ''contract''\<rparr> (Boolean False) =
   hash demo_env
     \<lparr>raw = [Buffer [0], Buffer [0], Buffer [0], Buffer [0], Buffer [0], Buffer [0],
             Buffer [0x1b], Buffer [7, 7], Buffer [9]], type = ''contract''\<rparr> (Boolean False)"
  using unsigned_hash_frame [of "\<lparr>raw = default_raw, type = ''contract''\<rparr>"
      "\<lparr>raw = [Buffer [0], Buffer [0], Buffer [0], Buffer [0], Buffer [0], Buffer [0],
             Buffer [0x1b], Buffer [7, 7], Buffer [9]], type = ''contract''\<rparr>" demo_env]
  by (simp add: length_default_raw tx_nonce_def tx_gasPrice_def tx_gasLimit_def
      tx_to_def tx_value_def tx_data_def nth_js_def default_raw_def)

section \<open>Sender recovery\<close>

lemma demo_recover:
  "ecdsa_recoverPubKey demo_env e r s v =
     (if 0 < r \<and> 0 < s \<and> (v = 0 \<or> v = 1)
      then Inr (Buffer (4 # replicate 64 1)) else Inl RecoveryFailure)"
  by (simp add: demo_env_def)

lemma demo_pubToAddress_False: "utils_pubToAddress demo_env (Boolean False) = Inl TypeError"
  by (simp add: demo_env_def)

lemma fromBuffer_zero256: "fromBuffer zero256 = 0"
  by (simp add: fromBuffer_zero_iff zero256_def)

text \<open>
  C4, as amended. When \<^verbatim>\<open>ecdsa.recoverPubKey\<close> throws, \<^verbatim>\<open>getSenderPublicKey()\<close> does
  not raise: it returns the absent result, \<^verbatim>\<open>false\<close>, the initial value of \<^verbatim>\<open>key\<close>.
  \<^verbatim>\<open>getSenderAddress()\<close> has no check of its own: it hands that \<^verbatim>\<open>false\<close> to
  \<^verbatim>\<open>utils.pubToAddress\<close> and returns, or raises, what the helper does.
\<close>

theorem recovery_failure_gives_false:
  "tx_r self = Buffer r \<Longrightarrow> tx_s self = Buffer s \<Longrightarrow> tx_v self = Buffer v \<Longrightarrow>
   ecdsa_recoverPubKey E (fromBuffer (hash E self (Boolean False)))
     (fromBuffer r) (fromBuffer s) (fromBuffer v - 27) = Inl e \<Longrightarrow>
   getSenderPublicKey E self = Inr (Boolean False) \<and>
   getSenderAddress E self = utils_pubToAddress E (Boolean False)"
  by (simp add: getSenderPublicKey_def getSenderAddress_def bufferToInt_def)

lemma default_signature:
  "tx_r \<lparr>raw = default_raw, type = ''contract''\<rparr> = Buffer zero256"
  "tx_s \<lparr>raw = default_raw, type = ''contract''\<rparr> = Buffer zero256"
  "tx_v \<lparr>raw = default_raw, type = ''contract''\<rparr> = Buffer [0x1c]"
  by (simp_all add: tx_r_def tx_s_def tx_v_def nth_js_def default_raw_def)

text \<open>
  The default transaction has \<open>r = s = 0\<close>, for which the instance's recovery fails.
\<close>

theorem recovery_failure_gives_false_witness:
  "getSenderPublicKey demo_env \<lparr>raw = default_raw, type = ''contract''\<rparr>
     = Inr (Boolean False) \<and>
   getSenderAddress demo_env \<lparr>raw = default_raw, type = ''contract''\<rparr>
     = utils_pubToAddress demo_env (Boolean False)"
  using recovery_failure_gives_false [of "\<lparr>raw = default_raw, type = ''contract''\<rparr>"
      zero256 zero256 "[0x1c]" demo_env RecoveryFailure]
  by (simp add: default_signature demo_recover fromBuffer_zero256)

text \<open>
  C4 as stated fails in its second half. For the default transaction under the instance
  the recovery throws and \<^verbatim>\<open>getSenderPublicKey()\<close> returns \<^verbatim>\<open>false\<close> without raising,
  but \<^verbatim>\<open>getSenderAddress()\<close> raises: lines 133 to 136 pass the \<^verbatim>\<open>false\<close> on, and the
  helper has no key to digest.
\<close>

theorem sender_address_raises:
  "ecdsa_recoverPubKey demo_env
     (fromBuffer (hash demo_env \<lparr>raw = default_raw, type = ''contract''\<rparr> (Boolean False)))
     (fromBuffer zero256) (fromBuffer zero256) (fromBuffer [0x1c] - 27) = Inl RecoveryFailure \<and>
   getSenderPublicKey demo_env \<lparr>raw = default_raw, type = ''contract''\<rparr>
     = Inr (Boolean False) \<and>
   getSenderAddress demo_env \<lparr>raw = default_raw, type = ''contract''\<rparr> = Inl TypeError"
  by (simp add: getSenderAddress_def getSenderPublicKey_def default_signature demo_recover
      fromBuffer_zero256 bufferToInt_def demo_pubToAddress_False)

section \<open>The type of a transaction\<close>

lemma forEach_raw_String:
  "forEach_raw E rw i ds = Inr r \<Longrightarrow> k < length ds \<Longrightarrow> ds ! k = String s \<Longrightarrow>
   \<exists>b. hex_Buffer E s = Inr b \<and> nth_js r (i + k) = Buffer b"
proof (induction ds arbitrary: rw i k)
  case Nil
  then show ?case by simp
next
  case (Cons d ds)
  show ?case
  proof (cases k)
    case 0
    with Cons.prems have d: "d = String s" by simp
    with Cons.prems(1) obtain b where b: "hex_Buffer E s = Inr b"
      and r: "forEach_raw E (store rw i (Buffer b)) (Suc i) ds = Inr r"
      by (auto split: sum.splits)
    from forEach_raw_below [OF r, of i] have "nth_js r i = Buffer b"
      by (simp add: nth_js_store_same)
    with 0 b show ?thesis by simp
  next
    case (Suc k')
    from Cons.prems(1) obtain rw' where "forEach_raw E rw' (Suc i) ds = Inr r"
      by (cases d) (auto split: sum.splits)
    from Cons.IH [OF this, of k'] Cons.prems Suc show ?thesis by simp
  qed
qed

lemma parse_to_Buffer:
  assumes "parse E rw (Array ds) = Inr tx" and "nth_js ds 3 = Buffer t"
  shows "tx_to tx = Buffer t" and "type tx = type_of_to (fromBuffer t)"
proof -
  from assms(1) obtain n where len: "length ds = 9"
    and loop: "forEach_raw E rw 0 ds = Inr (raw tx)"
    and n: "bufferToInt E (nth_js ds 3) = Inr n" "type tx = type_of_to n"
    by (auto elim: parse_Inr)
  from assms(2) len have "ds ! 3 = Buffer t"
    by (simp add: nth_js_def)
  with forEach_raw_Buffer [OF loop, of 3 t] len show "tx_to tx = Buffer t"
    by (simp add: tx_to_def)
  from n assms(2) show "type tx = type_of_to (fromBuffer t)"
    by (simp add: bufferToInt_def)
qed

lemma parse_to_String:
  assumes "parse E rw (Array ds) = Inr tx" and "nth_js ds 3 = String s"
  obtains b n where "hex_Buffer E s = Inr b" "tx_to tx = Buffer b"
    "utils_bufferToInt_other E (String s) = Inr n" "type tx = type_of_to n"
proof -
  from assms(1) obtain n where len: "length ds = 9"
    and loop: "forEach_raw E rw 0 ds = Inr (raw tx)"
    and n: "bufferToInt E (nth_js ds 3) = Inr n" "type tx = type_of_to n"
    by (auto elim: parse_Inr)
  from assms(2) len have "ds ! 3 = String s"
    by (simp add: nth_js_def)
  with forEach_raw_String [OF loop, of 3 s] len obtain b
    where "hex_Buffer E s = Inr b" "tx_to tx = Buffer b"
    by (auto simp: tx_to_def)
  moreover from n assms(2) have "utils_bufferToInt_other E (String s) = Inr n"
    by (simp add: bufferToInt_def)
  ultimately show ?thesis using n(2) by (rule that)
qed

lemma set_to_Buffer:
  assumes "set_to E self v = Inr tx'"
  obtains t where "length t = 20" "tx_to tx' = Buffer t" "type tx' = type_of_to (fromBuffer t)"
  using assms
  by (auto simp: set_to_def Let_def tx_to_def nth_js_store_same bufferToInt_def
      split: sum.splits if_splits)

lemma type_of_to_bytes:
  "type_of_to (fromBuffer t) = (if t = replicate (length t) 0 then ''contract'' else ''message'')"
  by (simp add: type_of_to_def fromBuffer_zero_iff)

text \<open>
  C2, as amended. The type is decided by the number \<^verbatim>\<open>utils.bufferToInt\<close> returns for
  the \<^verbatim>\<open>to\<close> item, not by its length: \<^verbatim>\<open>'contract'\<close> when the number is zero,
  \<^verbatim>\<open>'message'\<close> otherwise. For a \<^verbatim>\<open>to\<close> given as a Buffer of one byte or more that is
  exactly when all its bytes are zero. For a \<^verbatim>\<open>to\<close> given as a hex string the stored
  field is the converted Buffer, while the number is the helper's answer on the string
  itself (line 75 reads \<^verbatim>\<open>data[3]\<close>). The setter accepts 20 bytes only and recomputes
  the type by the same rule each time it succeeds. What the type is for an empty
  \<^verbatim>\<open>to\<close> is the helper's reading of the empty Buffer, and is not stated.
\<close>

theorem type_follows_to_value:
  "(parse E default_raw (Array ds) = Inr tx \<longrightarrow> nth_js ds 3 = Buffer t \<longrightarrow> t \<noteq> [] \<longrightarrow>
      tx_to tx = Buffer t \<and>
      type tx = (if t = replicate (length t) 0 then ''contract'' else ''message'')) \<and>
   (parse E default_raw (Array ds) = Inr tx \<longrightarrow> nth_js ds 3 = String s \<longrightarrow>
      (\<exists>b n. hex_Buffer E s = Inr b \<and> tx_to tx = Buffer b \<and>
             utils_bufferToInt_other E (String s) = Inr n \<and>
             type tx = (if n = 0 then ''contract'' else ''message''))) \<and>
   (set_to E self v = Inr tx' \<longrightarrow>
      (\<exists>t'. length t' = 20 \<and> tx_to tx' = Buffer t' \<and>
            type tx' = (if t' = replicate 20 0 then ''contract'' else ''message'')))"
proof (intro conjI impI)
  assume "parse E default_raw (Array ds) = Inr tx" and "nth_js ds 3 = Buffer t"
  then show "tx_to tx = Buffer t"
    and "type tx = (if t = replicate (length t) 0 then ''contract'' else ''message'')"
    by (simp_all add: parse_to_Buffer type_of_to_bytes)
next
  assume "parse E default_raw (Array ds) = Inr tx" and "nth_js ds 3 = String s"
  then obtain b n where "hex_Buffer E s = Inr b" "tx_to tx = Buffer b"
    "utils_bufferToInt_other E (String s) = Inr n" "type tx = type_of_to n"
    by (rule parse_to_String)
  then show "\<exists>b n. hex_Buffer E s = Inr b \<and> tx_to tx = Buffer b \<and>
             utils_bufferToInt_other E (String s) = Inr n \<and>
             type tx = (if n = 0 then ''contract'' else ''message'')"
    by (auto simp: type_of_to_def)
next
  assume "set_to E self v = Inr tx'"
  then obtain t' where t': "length t' = 20" "tx_to tx' = Buffer t'"
    "type tx' = type_of_to (fromBuffer t')"
    by (rule set_to_Buffer)
  from t'(3) t'(1) have "type tx' = (if t' = replicate 20 0 then ''contract'' else ''message'')"
    by (simp add: type_of_to_bytes)
  with t' show "\<exists>t'. length t' = 20 \<and> tx_to tx' = Buffer t' \<and>
            type tx' = (if t' = replicate 20 0 then ''contract'' else ''message'')"
    by blast
qed

lemma fromBuffer_zeros: "fromBuffer (replicate n 0) = 0"
  by (simp add: fromBuffer_zero_iff)

lemma parse_default:
  assumes "utils_validate E fields default_raw"
  shows "parse E default_raw (Array default_raw) =
         Inr \<lparr>raw = default_raw, type = ''contract''\<rparr>"
proof -
  have "nth_js default_raw 3 = Buffer [0]"
    by (simp add: nth_js_def default_raw_def)
  with assms show ?thesis
    by (simp add: parse_def forEach_raw_default length_default_raw bufferToInt_def
        fromBuffer_single_zero type_of_to_def)
qed

lemma demo_validate: "utils_validate demo_env names rw"
  by (simp add: demo_env_def)

text \<open>
  C2 as stated fails: the default transaction has the one-byte \<^verbatim>\<open>to\<close> field
  \<open>[0x00]\<close>, which is not empty, and its type is \<^verbatim>\<open>'contract'\<close>. The same holds in
  every environment whose validation accepts the defaults (\<open>parse_default\<close>).
\<close>

theorem contract_type_without_empty_to:
  "Transaction demo_env Undefined = Inr \<lparr>raw = default_raw, type = ''contract''\<rparr> \<and>
   \<not> (type \<lparr>raw = default_raw, type = ''contract''\<rparr> = ''contract'' \<longleftrightarrow>
      tx_to \<lparr>raw = default_raw, type = ''contract''\<rparr> = Buffer [])"
  by (simp add: Transaction_def parse_default demo_validate tx_to_def nth_js_def)
    (simp add: default_raw_def)

lemma demo_parse_hex_to:
  "parse demo_env default_raw
     (Array [Buffer [0], Buffer [1], Buffer [0x27, 0x10],
             String ''0000000000000000000000000000000000000001'',
             Buffer [5], Buffer [0], Buffer [0x1c], Buffer [1], Buffer [2]]) =
   Inr \<lparr>raw = [Buffer [0], Buffer [1], Buffer [0x27, 0x10], Buffer (replicate 19 0 @ [1]),
               Buffer [5], Buffer [0], Buffer [0x1c], Buffer [1], Buffer [2]],
        type = ''message''\<rparr>"
  by code_simp

lemma demo_set_to:
  "set_to demo_env \<lparr>raw = default_raw, type = ''contract''\<rparr> (Buffer (replicate 19 0 @ [1])) =
     Inr \<lparr>raw = default_raw[3 := Buffer (replicate 19 0 @ [1])], type = ''message''\<rparr>"
  by (simp add: set_to_def store_def length_default_raw nth_js_def bufferToInt_def
        fromBuffer_snoc fromBuffer_zeros type_of_to_def)

text \<open>
  The default transaction (a Buffer \<^verbatim>\<open>to\<close>), a list whose \<^verbatim>\<open>to\<close> is a hex string of
  20 bytes ending in 1, and the setter applied to the default transaction with the same
  address: the last two have type \<^verbatim>\<open>'message'\<close>.
\<close>

theorem type_follows_to_value_witness:
  "parse demo_env default_raw (Array default_raw) =
     Inr \<lparr>raw = default_raw, type = ''contract''\<rparr> \<and>
   nth_js default_raw 3 = Buffer [0] \<and>
   tx_to \<lparr>raw = default_raw, type = ''contract''\<rparr> = Buffer [0] \<and>
   tx_to \<lparr>raw = [Buffer [0], Buffer [1], Buffer [0x27, 0x10], Buffer (replicate 19 0 @ [1]),
               Buffer [5], Buffer [0], Buffer [0x1c], Buffer [1], Buffer [2]],
          type = ''message''\<rparr> = Buffer (replicate 19 0 @ [1]) \<and>
   utils_bufferToInt_other demo_env (String ''0000000000000000000000000000000000000001'')
     = Inr 1 \<and>
   set_to demo_env \<lparr>raw = default_raw, type = ''contract''\<rparr> (Buffer (replicate 19 0 @ [1])) =
     Inr \<lparr>raw = default_raw[3 := Buffer (replicate 19 0 @ [1])], type = ''message''\<rparr> \<and>
   (\<exists>t'. length t' = 20 \<and>
      tx_to \<lparr>raw = default_raw[3 := Buffer (replicate 19 0 @ [1])], type = ''message''\<rparr>
        = Buffer t' \<and>
      t' \<noteq> replicate 20 0)"
proof -
  have p: "parse demo_env default_raw (Array default_raw) =
     Inr \<lparr>raw = default_raw, type = ''contract''\<rparr>"
    by (simp add: parse_default demo_validate)
  have t: "nth_js default_raw 3 = Buffer [0]"
    by (simp add: nth_js_def default_raw_def)
  have h: "nth_js [Buffer [0], Buffer [1], Buffer [0x27, 0x10],
             String ''0000000000000000000000000000000000000001'',
             Buffer [5], Buffer [0], Buffer [0x1c], Buffer [1], Buffer [2]] 3 =
           String ''0000000000000000000000000000000000000001''"
    by (simp add: nth_js_def)
  have one: "utils_bufferToInt_other demo_env
      (String ''0000000000000000000000000000000000000001'') = Inr 1"
    by code_simp
  have hex: "hex_Buffer demo_env ''0000000000000000000000000000000000000001'' =
      Inr (replicate 19 0 @ [1])"
    by code_simp
  note thm1 = type_follows_to_value [of demo_env default_raw
      "\<lparr>raw = default_raw, type = ''contract''\<rparr>" "[0]" "[]"
      "\<lparr>raw = default_raw, type = ''contract''\<rparr>" "Buffer (replicate 19 0 @ [1])"
      "\<lparr>raw = default_raw[3 := Buffer (replicate 19 0 @ [1])], type = ''message''\<rparr>"]
  note thm2 = type_follows_to_value [of demo_env
      "[Buffer [0], Buffer [1], Buffer [0x27, 0x10],
             String ''0000000000000000000000000000000000000001'',
             Buffer [5], Buffer [0], Buffer [0x1c], Buffer [1], Buffer [2]]"
      "\<lparr>raw = [Buffer [0], Buffer [1], Buffer [0x27, 0x10], Buffer (replicate 19 0 @ [1]),
               Buffer [5], Buffer [0], Buffer [0x1c], Buffer [1], Buffer [2]],
          type = ''message''\<rparr>" "[]" "''0000000000000000000000000000000000000001''"]
  from thm1 p t have a: "tx_to \<lparr>raw = default_raw, type = ''contract''\<rparr> = Buffer [0]"
    by simp
  from thm1 demo_set_to have c: "\<exists>t'. length t' = 20 \<and>
      tx_to \<lparr>raw = default_raw[3 := Buffer (replicate 19 0 @ [1])], type = ''message''\<rparr>
        = Buffer t' \<and> t' \<noteq> replicate 20 0"
    by (auto split: if_splits)
  from thm2 demo_parse_hex_to h hex
  have b: "tx_to \<lparr>raw = [Buffer [0], Buffer [1], Buffer [0x27, 0x10],
               Buffer (replicate 19 0 @ [1]),
               Buffer [5], Buffer [0], Buffer [0x1c], Buffer [1], Buffer [2]],
          type = ''message''\<rparr> = Buffer (replicate 19 0 @ [1])"
    by auto
  from p t a b one demo_set_to c show ?thesis by blast
qed

section \<open>Serialisation and construction from bytes\<close>







end
